theory Spec2Isabelle
  imports Main
begin

section \<open>JavaScript data values\<close>

text \<open>
  The values that flow through \<^verbatim>\<open>youtube-extract.mjs\<close> are the results of
  \<^verbatim>\<open>JSON.parse\<close> and of optional chaining over them: plain data, with
  \<^verbatim>\<open>undefined\<close> as the result of a failed access. Objects are association lists from
  property names to values, looked up with \<open>map_of\<close>. The payload of a number
  is left open (\<open>'n\<close>): the program observes a number only through its truthiness
  and through its conversion to a string when lines are joined.
\<close>

datatype 'n jsval =
    JUndefined
  | JNull
  | JBool bool
  | JNum 'n
  | JStr string
  | JArr "'n jsval list"
  | JObj "(string \<times> 'n jsval) list"

text \<open>
  Thrown values. Every value thrown in this program is an error object with a
  \<^verbatim>\<open>message\<close>: the \<^verbatim>\<open>Error\<close>s the program creates, the
  \<^verbatim>\<open>SyntaxError\<close> of \<^verbatim>\<open>JSON.parse\<close>, the \<^verbatim>\<open>TypeError\<close> of a failed
  conversion to a primitive, and the system errors of the \<^verbatim>\<open>fs\<close> module.
\<close>

datatype js_error =
    Error string
  | TypeError string
  | SyntaxError string
  | SystemError string

fun message :: "js_error \<Rightarrow> string" where
  "message (Error m) = m"
| "message (TypeError m) = m"
| "message (SyntaxError m) = m"
| "message (SystemError m) = m"

subsection \<open>Optional chaining\<close>

text \<open>
  \<^verbatim>\<open>v?.k\<close> for a property name \<open>k\<close>: \<^verbatim>\<open>undefined\<close> when \<open>v\<close> is
  \<^verbatim>\<open>null\<close> or \<^verbatim>\<open>undefined\<close>, the own property of an object, and
  \<^verbatim>\<open>undefined\<close> on every other value. The program uses it only at the names
  \<^verbatim>\<open>actions\<close>, \<^verbatim>\<open>updateEngagementPanelAction\<close>, \<^verbatim>\<open>content\<close>,
  \<^verbatim>\<open>transcriptRenderer\<close>, \<^verbatim>\<open>transcriptSearchPanelRenderer\<close>, \<^verbatim>\<open>body\<close>,
  \<^verbatim>\<open>transcriptSegmentListRenderer\<close>, \<^verbatim>\<open>initialSegments\<close>,
  \<^verbatim>\<open>transcriptSegmentRenderer\<close>, \<^verbatim>\<open>snippet\<close>, \<^verbatim>\<open>runs\<close> and \<^verbatim>\<open>text\<close>,
  none of which is inherited from the prototype of an object, array, string,
  number or boolean.
\<close>

fun opt_member :: "'n jsval \<Rightarrow> string \<Rightarrow> 'n jsval" where
  "opt_member JUndefined k = JUndefined"
| "opt_member JNull k = JUndefined"
| "opt_member (JObj kvs) k = (case map_of kvs k of None \<Rightarrow> JUndefined | Some v \<Rightarrow> v)"
| "opt_member (JBool b) k = JUndefined"
| "opt_member (JNum n) k = JUndefined"
| "opt_member (JStr s) k = JUndefined"
| "opt_member (JArr xs) k = JUndefined"

text \<open>
  \<^verbatim>\<open>v?.[0]\<close>: the first element of an array, the first character of a string (as
  a string of length one), the property named \<^verbatim>\<open>"0"\<close> of an object, and
  \<^verbatim>\<open>undefined\<close> otherwise, also when the array or string is empty.
\<close>

fun opt_index0 :: "'n jsval \<Rightarrow> 'n jsval" where
  "opt_index0 JUndefined = JUndefined"
| "opt_index0 JNull = JUndefined"
| "opt_index0 (JArr xs) = (case xs of [] \<Rightarrow> JUndefined | x # _ \<Rightarrow> x)"
| "opt_index0 (JStr s) = (case s of [] \<Rightarrow> JUndefined | c # _ \<Rightarrow> JStr [c])"
| "opt_index0 (JObj kvs) = (case map_of kvs ''0'' of None \<Rightarrow> JUndefined | Some v \<Rightarrow> v)"
| "opt_index0 (JBool b) = JUndefined"
| "opt_index0 (JNum n) = JUndefined"

text \<open>
  Truthiness, for \<^verbatim>\<open>!segments\<close>. A number is falsy when it is zero
  (\<^verbatim>\<open>JSON.parse\<close> never yields \<^verbatim>\<open>NaN\<close>).
\<close>

fun falsy :: "('n::zero) jsval \<Rightarrow> bool" where
  "falsy JUndefined = True"
| "falsy JNull = True"
| "falsy (JBool b) = (\<not> b)"
| "falsy (JNum n) = (n = 0)"
| "falsy (JStr s) = (s = [])"
| "falsy (JArr xs) = False"
| "falsy (JObj kvs) = False"

text \<open>\<^verbatim>\<open>typeof v === "string"\<close>\<close>

fun isString :: "'n jsval \<Rightarrow> bool" where
  "isString (JStr s) = True"
| "isString v = False"

fun isArray :: "'n jsval \<Rightarrow> bool" where
  "isArray (JArr xs) = True"
| "isArray v = False"

text \<open>The elements of an array value; used only behind the \<open>isArray\<close> guard.\<close>

fun elements :: "'n jsval \<Rightarrow> 'n jsval list" where
  "elements (JArr xs) = xs"
| "elements v = []"

section \<open>The world: file system and console\<close>

datatype console_line = StdOut string | StdErr string

record 'fs world =
  fs :: 'fs
  console :: "console_line list"

text \<open>
  A computation either returns a value or throws, and leaves a world behind in
  both cases.
\<close>

type_synonym ('a, 'fs) js = "'fs world \<Rightarrow> (js_error + 'a) \<times> 'fs world"

definition js_return :: "'a \<Rightarrow> ('a, 'fs) js" where
  "js_return x = (\<lambda>w. (Inr x, w))"

definition js_throw :: "js_error \<Rightarrow> ('a, 'fs) js" where
  "js_throw e = (\<lambda>w. (Inl e, w))"

definition js_bind :: "('a, 'fs) js \<Rightarrow> ('a \<Rightarrow> ('b, 'fs) js) \<Rightarrow> ('b, 'fs) js" where
  "js_bind m f = (\<lambda>w. case m w of (Inl e, w') \<Rightarrow> (Inl e, w') | (Inr x, w') \<Rightarrow> f x w')"

text \<open>\<^verbatim>\<open>try { m } catch (error) { h error }\<close>\<close>

definition js_try :: "('a, 'fs) js \<Rightarrow> (js_error \<Rightarrow> ('a, 'fs) js) \<Rightarrow> ('a, 'fs) js" where
  "js_try m h = (\<lambda>w. case m w of (Inl e, w') \<Rightarrow> h e w' | (Inr x, w') \<Rightarrow> (Inr x, w'))"

text \<open>
  \<^verbatim>\<open>console.log\<close> and \<^verbatim>\<open>console.error\<close> with the line they print (the
  arguments joined by one space).
\<close>

definition console_log :: "string \<Rightarrow> (unit, 'fs) js" where
  "console_log s = (\<lambda>w. (Inr (), w\<lparr>console := console w @ [StdOut s]\<rparr>))"

definition console_error :: "string \<Rightarrow> (unit, 'fs) js" where
  "console_error s = (\<lambda>w. (Inr (), w\<lparr>console := console w @ [StdErr s]\<rparr>))"

section \<open>extractTranscriptText\<close>

text \<open>
  Lines 16 to 18: the chain of optional accesses from the document down to
  \<^verbatim>\<open>initialSegments\<close>.
\<close>

definition initialSegments :: "'n jsval \<Rightarrow> 'n jsval" where
  "initialSegments jsonData =
     opt_member (opt_member (opt_member (opt_member (opt_member (opt_member
       (opt_member (opt_member (opt_index0 (opt_member jsonData
          ''actions''))
          ''updateEngagementPanelAction'')
          ''content'')
          ''transcriptRenderer'')
          ''content'')
          ''transcriptSearchPanelRenderer'')
          ''body'')
          ''transcriptSegmentListRenderer'')
          ''initialSegments''"

text \<open>
  Line 25: \<^verbatim>\<open>segment?.transcriptSegmentRenderer?.snippet?.runs?.[0]?.text\<close>.
\<close>

definition segmentText :: "'n jsval \<Rightarrow> 'n jsval" where
  "segmentText segment =
     opt_member (opt_index0 (opt_member (opt_member (opt_member segment
       ''transcriptSegmentRenderer'') ''snippet'') ''runs'')) ''text''"

text \<open>Line 26: \<^verbatim>\<open>text != null && text !== ""\<close>.\<close>

definition keptText :: "'n jsval \<Rightarrow> bool" where
  "keptText text = ((text \<noteq> JUndefined \<and> text \<noteq> JNull) \<and> text \<noteq> JStr '''')"

definition noSegmentsMessage :: string where
  "noSegmentsMessage = ''No valid transcript segments found in the JSON structure''"

text \<open>Lines 16 to 26, the body of the \<^verbatim>\<open>try\<close>.\<close>

definition extractTranscriptText_try :: "('n::zero) jsval \<Rightarrow> ('n jsval list, 'fs) js" where
  "extractTranscriptText_try jsonData =
     (let segments = initialSegments jsonData in
      if falsy segments \<or> \<not> isArray segments
      then js_throw (Error noSegmentsMessage)
      else js_return (filter keptText (map segmentText (elements segments))))"

text \<open>Lines 14 to 31.\<close>

definition extractTranscriptText :: "('n::zero) jsval \<Rightarrow> ('n jsval list, 'fs) js" where
  "extractTranscriptText jsonData =
     js_try (extractTranscriptText_try jsonData)
       (\<lambda>error. js_bind (console_error (''Error extracting transcript: '' @ message error))
          (\<lambda>_. js_return []))"

section \<open>Conversion to strings and \<^verbatim>\<open>join\<close>\<close>

text \<open>
  \<^verbatim>\<open>ToString\<close> on data values, as \<^verbatim>\<open>Array.prototype.join\<close> applies it to
  each element. An array converts through its own \<^verbatim>\<open>join(",")\<close>. A plain object
  converts to \<^verbatim>\<open>[object Object]\<close> through the inherited \<^verbatim>\<open>toString\<close>; when
  it has an own property named \<^verbatim>\<open>toString\<close> (never callable in parsed JSON), the
  inherited \<^verbatim>\<open>valueOf\<close> returns the object itself and the conversion throws a
  \<^verbatim>\<open>TypeError\<close>. \<^verbatim>\<open>join\<close> writes \<^verbatim>\<open>undefined\<close> and \<^verbatim>\<open>null\<close> elements as
  the empty string. The conversion of numbers is a parameter.
\<close>

fun joinStrings :: "string \<Rightarrow> string list \<Rightarrow> string" where
  "joinStrings sep [] = []"
| "joinStrings sep [s] = s"
| "joinStrings sep (s # t # ss) = s @ sep @ joinStrings sep (t # ss)"

fun ToString :: "('n \<Rightarrow> string) \<Rightarrow> 'n jsval \<Rightarrow> js_error + string"
  and elementStrings :: "('n \<Rightarrow> string) \<Rightarrow> 'n jsval list \<Rightarrow> js_error + string list" where
  "ToString num JUndefined = Inr ''undefined''"
| "ToString num JNull = Inr ''null''"
| "ToString num (JBool b) = Inr (if b then ''true'' else ''false'')"
| "ToString num (JNum n) = Inr (num n)"
| "ToString num (JStr s) = Inr s"
| "ToString num (JArr xs) =
     (case elementStrings num xs of
        Inl e \<Rightarrow> Inl e
      | Inr ss \<Rightarrow> Inr (joinStrings '','' ss))"
| "ToString num (JObj kvs) =
     (if ''toString'' \<in> set (map fst kvs)
      then Inl (TypeError ''Cannot convert object to primitive value'')
      else Inr ''[object Object]'')"
| "elementStrings num [] = Inr []"
| "elementStrings num (x # xs) =
     (case (if x = JUndefined \<or> x = JNull then Inr [] else ToString num x) of
        Inl e \<Rightarrow> Inl e
      | Inr s \<Rightarrow>
          (case elementStrings num xs of
             Inl e \<Rightarrow> Inl e
           | Inr ss \<Rightarrow> Inr (s # ss)))"

text \<open>\<^verbatim>\<open>xs.join(sep)\<close>\<close>

definition Array_join :: "('n \<Rightarrow> string) \<Rightarrow> string \<Rightarrow> 'n jsval list \<Rightarrow> js_error + string" where
  "Array_join num sep xs =
     (case elementStrings num xs of
        Inl e \<Rightarrow> Inl e
      | Inr ss \<Rightarrow> Inr (joinStrings sep ss))"

text \<open>The decimal digits of a length, for the template literal of line 78.\<close>

fun string_of_nat :: "nat \<Rightarrow> string" where
  "string_of_nat n =
     (if n < 10 then [''0123456789'' ! n]
      else string_of_nat (n div 10) @ [''0123456789'' ! (n mod 10)])"

declare string_of_nat.simps [simp del]

section \<open>The host: \<^verbatim>\<open>path\<close>, \<^verbatim>\<open>JSON\<close> and \<^verbatim>\<open>fs\<close>\<close>

text \<open>
  The program calls into Node's \<^verbatim>\<open>path\<close> and \<^verbatim>\<open>fs\<close> modules and into
  \<^verbatim>\<open>JSON.parse\<close>. None of them is part of the repository, so they are
  parameters: a host gives each of them a behaviour, over a type \<open>'fs\<close> of
  file-system states of its own. \<^verbatim>\<open>existsSync\<close> and \<^verbatim>\<open>readFileSync\<close> only
  look at the file system; \<^verbatim>\<open>mkdirSync\<close> (called with \<^verbatim>\<open>recursive: true\<close>) and
  \<^verbatim>\<open>writeFileSync\<close> return the file system they leave behind together with the
  error they throw, if any. \<^verbatim>\<open>path.resolve\<close> depends on the working directory,
  which is fixed for one host; on strings \<^verbatim>\<open>path.resolve\<close> and
  \<^verbatim>\<open>path.dirname\<close> always return.
\<close>

record ('n, 'fs) host =
  path_resolve :: "string \<Rightarrow> string"
  path_dirname :: "string \<Rightarrow> string"
  JSON_parse :: "string \<Rightarrow> js_error + 'n jsval"
  Number_toString :: "'n \<Rightarrow> string"
  existsSync :: "'fs \<Rightarrow> string \<Rightarrow> bool"
  readFileSync :: "'fs \<Rightarrow> string \<Rightarrow> js_error + string"
  mkdirSync :: "'fs \<Rightarrow> string \<Rightarrow> js_error option \<times> 'fs"
  writeFileSync :: "'fs \<Rightarrow> string \<Rightarrow> string \<Rightarrow> js_error option \<times> 'fs"

definition js_lift :: "js_error + 'a \<Rightarrow> ('a, 'fs) js" where
  "js_lift r = (\<lambda>w. (r, w))"

definition fs_existsSync :: "('n, 'fs) host \<Rightarrow> string \<Rightarrow> (bool, 'fs) js" where
  "fs_existsSync h p = (\<lambda>w. (Inr (existsSync h (fs w) p), w))"

definition fs_readFileSync :: "('n, 'fs) host \<Rightarrow> string \<Rightarrow> (string, 'fs) js" where
  "fs_readFileSync h p = (\<lambda>w. (readFileSync h (fs w) p, w))"

definition fs_mkdirSync :: "('n, 'fs) host \<Rightarrow> string \<Rightarrow> (unit, 'fs) js" where
  "fs_mkdirSync h p =
     (\<lambda>w. case mkdirSync h (fs w) p of
             (None, fs') \<Rightarrow> (Inr (), w\<lparr>fs := fs'\<rparr>)
           | (Some e, fs') \<Rightarrow> (Inl e, w\<lparr>fs := fs'\<rparr>))"

definition fs_writeFileSync :: "('n, 'fs) host \<Rightarrow> string \<Rightarrow> string \<Rightarrow> (unit, 'fs) js" where
  "fs_writeFileSync h p content =
     (\<lambda>w. case writeFileSync h (fs w) p content of
             (None, fs') \<Rightarrow> (Inr (), w\<lparr>fs := fs'\<rparr>)
           | (Some e, fs') \<Rightarrow> (Inl e, w\<lparr>fs := fs'\<rparr>))"

section \<open>processTranscript\<close>

text \<open>
  Lines 42 to 81, the body of the outer \<^verbatim>\<open>try\<close>, statement by statement. The
  function is \<^verbatim>\<open>async\<close> and awaits nothing: its promise resolves with the value
  returned here, and would reject with an error thrown here.
\<close>

definition processTranscript_try ::
  "('n::zero, 'fs) host \<Rightarrow> string \<Rightarrow> string \<Rightarrow> (bool, 'fs) js" where
  "processTranscript_try h inputPath outputPath =
     (let resolvedInputPath = path_resolve h inputPath;
          resolvedOutputPath = path_resolve h outputPath in
      js_bind (fs_existsSync h resolvedInputPath) (\<lambda>inputExists.
      js_bind (if \<not> inputExists
               then js_throw (Error (''Input file not found: '' @ resolvedInputPath))
               else js_return ()) (\<lambda>_.
      js_bind (console_log (''Reading file: '' @ resolvedInputPath)) (\<lambda>_.
      js_bind (fs_readFileSync h resolvedInputPath) (\<lambda>fileContent.
      js_bind (case JSON_parse h fileContent of
                 Inl parseError \<Rightarrow>
                   js_throw (Error (''Failed to parse JSON: '' @ message parseError))
               | Inr v \<Rightarrow> js_return v) (\<lambda>jsonData.
      js_bind (extractTranscriptText jsonData) (\<lambda>transcriptLines.
      js_bind (if length transcriptLines = 0
               then js_throw (Error ''No transcript lines were extracted'')
               else js_return ()) (\<lambda>_.
      let outputDir = path_dirname h resolvedOutputPath in
      js_bind (fs_existsSync h outputDir) (\<lambda>dirExists.
      js_bind (if \<not> dirExists then fs_mkdirSync h outputDir else js_return ()) (\<lambda>_.
      js_bind (js_lift (Array_join (Number_toString h) ''\<newline>'' transcriptLines))
        (\<lambda>transcriptText.
      js_bind (fs_writeFileSync h resolvedOutputPath transcriptText) (\<lambda>_.
      js_bind (console_log (''Successfully extracted ''
                 @ string_of_nat (length transcriptLines) @ '' lines'')) (\<lambda>_.
      js_bind (console_log (''Transcript saved to: '' @ resolvedOutputPath)) (\<lambda>_.
      js_return True))))))))))))))"

text \<open>Lines 82 to 85, the handler of the outer \<^verbatim>\<open>catch\<close>.\<close>

definition processTranscript_catch :: "js_error \<Rightarrow> (bool, 'fs) js" where
  "processTranscript_catch error =
     js_bind (console_error (''Error processing transcript: '' @ message error))
       (\<lambda>_. js_return False)"

text \<open>Lines 39 to 86.\<close>

definition processTranscript ::
  "('n::zero, 'fs) host \<Rightarrow> string \<Rightarrow> string \<Rightarrow> (bool, 'fs) js" where
  "processTranscript h inputPath outputPath =
     js_try (processTranscript_try h inputPath outputPath) processTranscript_catch"

text \<open>
  The three failures the specification names, as conditions on the host and the
  world a run starts in: the resolved input path does not exist; it exists and
  is read, and its content does not parse; it parses, and extraction returns no
  line. The world after line 51 has the line \<^verbatim>\<open>Reading file: ...\<close> on its
  console.
\<close>

definition afterReadingLog :: "('n, 'fs) host \<Rightarrow> string \<Rightarrow> 'fs world \<Rightarrow> 'fs world" where
  "afterReadingLog h inputPath w =
     w\<lparr>console := console w @ [StdOut (''Reading file: '' @ path_resolve h inputPath)]\<rparr>"

definition inputNotFound :: "('n, 'fs) host \<Rightarrow> string \<Rightarrow> 'fs world \<Rightarrow> bool" where
  "inputNotFound h inputPath w = (\<not> existsSync h (fs w) (path_resolve h inputPath))"

definition invalidJson :: "('n, 'fs) host \<Rightarrow> string \<Rightarrow> 'fs world \<Rightarrow> bool" where
  "invalidJson h inputPath w =
     (existsSync h (fs w) (path_resolve h inputPath) \<and>
      (case readFileSync h (fs w) (path_resolve h inputPath) of
         Inl e \<Rightarrow> False
       | Inr fileContent \<Rightarrow>
           (case JSON_parse h fileContent of Inl e \<Rightarrow> True | Inr jsonData \<Rightarrow> False)))"

definition noLinesExtracted :: "('n::zero, 'fs) host \<Rightarrow> string \<Rightarrow> 'fs world \<Rightarrow> bool" where
  "noLinesExtracted h inputPath w =
     (existsSync h (fs w) (path_resolve h inputPath) \<and>
      (case readFileSync h (fs w) (path_resolve h inputPath) of
         Inl e \<Rightarrow> False
       | Inr fileContent \<Rightarrow>
           (case JSON_parse h fileContent of
              Inl e \<Rightarrow> False
            | Inr jsonData \<Rightarrow>
                fst (extractTranscriptText jsonData (afterReadingLog h inputPath w)) = Inr [])))"

section \<open>Documents of the expected shape\<close>

text \<open>
  The segment \<^verbatim>\<open>{transcriptSegmentRenderer: {snippet: {runs: [{text: t}]}}}\<close>,
  which the specification abbreviates to \<^verbatim>\<open>{text: t}\<close>, and the envelope
  around a value for \<^verbatim>\<open>initialSegments\<close>.
\<close>

definition segment :: "'n jsval \<Rightarrow> 'n jsval" where
  "segment t =
     JObj [(''transcriptSegmentRenderer'',
       JObj [(''snippet'', JObj [(''runs'', JArr [JObj [(''text'', t)]])])])]"

definition envelope :: "'n jsval \<Rightarrow> 'n jsval" where
  "envelope segments =
     JObj [(''actions'', JArr [
       JObj [(''updateEngagementPanelAction'',
       JObj [(''content'',
       JObj [(''transcriptRenderer'',
       JObj [(''content'',
       JObj [(''transcriptSearchPanelRenderer'',
       JObj [(''body'',
       JObj [(''transcriptSegmentListRenderer'',
       JObj [(''initialSegments'', segments)])])])])])])])]])]"

definition helloDocument :: "'n jsval" where
  "helloDocument = envelope (JArr [segment (JStr ''Hello''), segment (JStr ''world'')])"

text \<open>
  The rule of section 4.1 of the specification in its own words: go through the
  segments in order; a segment whose chain resolves to a value other than
  \<^verbatim>\<open>undefined\<close>, \<^verbatim>\<open>null\<close> and the empty string contributes that value, any
  other segment contributes nothing.
\<close>

fun keptSegments_spec :: "'n jsval list \<Rightarrow> 'n jsval list" where
  "keptSegments_spec [] = []"
| "keptSegments_spec (s # ss) =
     (if segmentText s = JUndefined then keptSegments_spec ss
      else if segmentText s = JNull then keptSegments_spec ss
      else if segmentText s = JStr [] then keptSegments_spec ss
      else segmentText s # keptSegments_spec ss)"

section \<open>A small host for concrete runs\<close>

text \<open>
  A host with integers as numbers and a file system of three lists: the files
  with their contents (the first entry for a path is the current one), the
  directories, and the paths that refuse \<^verbatim>\<open>mkdir\<close> and \<^verbatim>\<open>write\<close>. Its working
  directory is \<^verbatim>\<open>/work\<close>, and its \<^verbatim>\<open>JSON.parse\<close> knows three texts.
\<close>

record simple_fs =
  files :: "(string \<times> string) list"
  dirs :: "string list"
  readonly :: "string list"

definition helloText :: string where
  \<open>helloText = ''{"actions":[{"updateEngagementPanelAction":{"content":{"transcriptRenderer":{"content":{"transcriptSearchPanelRenderer":{"body":{"transcriptSegmentListRenderer":{"initialSegments":[{"transcriptSegmentRenderer":{"snippet":{"runs":[{"text":"Hello"}]}}},{"transcriptSegmentRenderer":{"snippet":{"runs":[{"text":"world"}]}}}]}}}}}}}}]}''\<close>

definition simple_parse :: "string \<Rightarrow> js_error + int jsval" where
  \<open>simple_parse s =
     (if s = helloText then Inr helloDocument
      else if s = ''{}'' then Inr (JObj [])
      else if s = ''[]'' then Inr (JArr [])
      else Inl (SyntaxError ''Unexpected token in JSON''))\<close>

definition simple_resolve :: "string \<Rightarrow> string" where
  "simple_resolve p = (case p of c # _ \<Rightarrow> if c = CHR ''/'' then p else ''/work/'' @ p | [] \<Rightarrow> ''/work'')"

definition simple_dirname :: "string \<Rightarrow> string" where
  "simple_dirname p = rev (tl (dropWhile (\<lambda>c. c \<noteq> CHR ''/'') (rev p)))"

definition simple_host :: "(int, simple_fs) host" where
  "simple_host =
     \<lparr> path_resolve = simple_resolve,
       path_dirname = simple_dirname,
       JSON_parse = simple_parse,
       Number_toString = (\<lambda>n. (if n < 0 then ''-'' else []) @ string_of_nat (nat \<bar>n\<bar>)),
       existsSync = (\<lambda>f p. p \<in> set (map fst (files f)) \<or> p \<in> set (dirs f)),
       readFileSync = (\<lambda>f p. case map_of (files f) p of
                                Some c \<Rightarrow> Inr c
                              | None \<Rightarrow> Inl (SystemError (''ENOENT: no such file or directory, open '' @ p))),
       mkdirSync = (\<lambda>f p. if p \<in> set (readonly f)
                           then (Some (SystemError (''EACCES: permission denied, mkdir '' @ p)), f)
                           else (None, f\<lparr>dirs := p # dirs f\<rparr>)),
       writeFileSync = (\<lambda>f p c. if p \<in> set (readonly f)
                           then (Some (SystemError (''EACCES: permission denied, open '' @ p)), f)
                           else (None, f\<lparr>files := (p, c) # files f\<rparr>)) \<rparr>"

definition simple_world :: "simple_fs world" where
  \<open>simple_world =
     \<lparr> fs = \<lparr> files = [(''/work/input.json'', helloText),
                        (''/work/bad.json'', ''{not valid json''),
                        (''/work/empty.json'', ''{}'')],
              dirs = [''/work''],
              readonly = [''/locked'', ''/work/locked.txt''] \<rparr>,
       console = [] \<rparr>\<close>

section \<open>Facts about the extractor\<close>

lemma isArray_not_falsy: "isArray v \<Longrightarrow> \<not> falsy v"
  by (cases v) simp_all

text \<open>
  What a call of \<open>extractTranscriptText\<close> does, with the \<^verbatim>\<open>try\<close> and the
  \<^verbatim>\<open>catch\<close> resolved: the guard of line 20 fails exactly when the navigated
  value is an array.
\<close>

lemma extractTranscriptText_run:
  "extractTranscriptText jsonData w =
     (if isArray (initialSegments jsonData)
      then (Inr (filter keptText (map segmentText (elements (initialSegments jsonData)))), w)
      else (Inr [], w\<lparr>console := console w @
              [StdErr (''Error extracting transcript: '' @ noSegmentsMessage)]\<rparr>))"
  by (auto simp: extractTranscriptText_def extractTranscriptText_try_def js_try_def js_bind_def
      js_return_def js_throw_def console_error_def Let_def dest: isArray_not_falsy)

lemma extractTranscriptText_segments:
  "initialSegments jsonData = JArr segs \<Longrightarrow>
   extractTranscriptText jsonData w = (Inr (filter keptText (map segmentText segs)), w)"
  by (simp add: extractTranscriptText_run)

lemma extractTranscriptText_fs: "fs (snd (extractTranscriptText jsonData w)) = fs w"
  by (simp add: extractTranscriptText_run)

lemma initialSegments_envelope: "initialSegments (envelope segs) = segs"
  by (simp add: initialSegments_def envelope_def)

lemma segmentText_segment: "segmentText (segment t) = t"
  by (simp add: segmentText_def segment_def)

lemma segmentText_empty_object: "segmentText (JObj []) = JUndefined"
  by (simp add: segmentText_def)

lemma keptSegments_spec_filter: "keptSegments_spec ss = filter keptText (map segmentText ss)"
  by (induction ss) (simp_all add: keptText_def)

lemma filter_map_positions:
  "filter P (map f xs) = map (\<lambda>p. f (xs ! p)) (filter (\<lambda>p. P (f (xs ! p))) [0..<length xs])"
proof -
  have "filter P (map f xs) = filter P (map f (map (\<lambda>p. xs ! p) [0..<length xs]))"
    by (simp only: map_nth)
  also have "\<dots> = map (\<lambda>p. f (xs ! p)) (filter (\<lambda>p. P (f (xs ! p))) [0..<length xs])"
    by (simp add: filter_map comp_def)
  finally show ?thesis .
qed

text \<open>
  C2. When the segment list is found, the extractor returns the texts of exactly
  the segments whose chain resolves to a value that is neither
  \<^verbatim>\<open>undefined\<close>, \<^verbatim>\<open>null\<close> nor the empty string, and drops every other
  segment; the segment list \<^verbatim>\<open>[{text:"A"}, {}, {text:""}, {text:"B"}]\<close> gives
  \<^verbatim>\<open>["A", "B"]\<close>.
\<close>

theorem extract_keeps_exactly_valid_segments:
  fixes d :: "('n::zero) jsval" and w :: "'fs world"
  shows "(initialSegments d = JArr segs \<longrightarrow>
            extractTranscriptText d w = (Inr (keptSegments_spec segs), w)) \<and>
         extractTranscriptText
            (envelope (JArr [segment (JStr ''A''), JObj [], segment (JStr ''''),
                             segment (JStr ''B'')]) :: 'n jsval) w
          = (Inr [JStr ''A'', JStr ''B''], w)"
  by (simp add: extractTranscriptText_segments keptSegments_spec_filter initialSegments_envelope
      segmentText_segment segmentText_empty_object keptText_def)

theorem extract_keeps_exactly_valid_segments_witness:
  "initialSegments (envelope (JArr [segment JNull, segment (JStr ''kept''), JStr ''x'']) :: int jsval)
     = JArr [segment JNull, segment (JStr ''kept''), JStr ''x''] \<and>
   extractTranscriptText
     (envelope (JArr [segment JNull, segment (JStr ''kept''), JStr ''x'']) :: int jsval) simple_world
     = (Inr [JStr ''kept''], simple_world)"
  using extract_keeps_exactly_valid_segments
    [of "envelope (JArr [segment JNull, segment (JStr ''kept''), JStr ''x'']) :: int jsval"
        "[segment JNull, segment (JStr ''kept''), JStr ''x'']" simple_world]
  by (simp add: extractTranscriptText_run initialSegments_def envelope_def segmentText_def
      segment_def keptText_def noSegmentsMessage_def)

text \<open>
  C3. When the segment list is found, the returned sequence is the texts of the
  valid segments taken at their positions in increasing order: one entry per
  valid position, whatever stands between them, with nothing reordered, merged
  or sorted.
\<close>

theorem extract_preserves_segment_order:
  "initialSegments d = JArr segs \<Longrightarrow>
   extractTranscriptText d w =
     (Inr (map (\<lambda>p. segmentText (segs ! p))
            (filter (\<lambda>p. keptText (segmentText (segs ! p))) [0..<length segs])), w)"
  by (simp add: extractTranscriptText_segments filter_map_positions)

theorem extract_preserves_segment_order_witness:
  "initialSegments (envelope (JArr [segment (JStr ''b''), JObj [], segment (JStr ''a''),
       JNull, segment (JStr ''b'')]) :: int jsval)
     = JArr [segment (JStr ''b''), JObj [], segment (JStr ''a''), JNull, segment (JStr ''b'')] \<and>
   extractTranscriptText (envelope (JArr [segment (JStr ''b''), JObj [], segment (JStr ''a''),
       JNull, segment (JStr ''b'')]) :: int jsval) simple_world
     = (Inr [JStr ''b'', JStr ''a'', JStr ''b''], simple_world)"
  using extract_preserves_segment_order
    [of "envelope (JArr [segment (JStr ''b''), JObj [], segment (JStr ''a''),
           JNull, segment (JStr ''b'')]) :: int jsval"
        "[segment (JStr ''b''), JObj [], segment (JStr ''a''), JNull, segment (JStr ''b'')]"
        simple_world]
  by (simp add: extractTranscriptText_run initialSegments_def envelope_def segmentText_def
      segment_def keptText_def noSegmentsMessage_def)

text \<open>
  C4. For every input value the extractor returns and never throws. Whenever
  navigation does not end in an array, whatever the cause, the result is the
  same: the empty sequence, and one fixed diagnostic on the error stream. When
  it ends in an array the result is a selection of the segments' texts and
  nothing is logged.
\<close>

theorem extract_never_raises:
  "(\<exists>lines w'. extractTranscriptText d w = (Inr lines, w')) \<and>
   (\<not> isArray (initialSegments d) \<longrightarrow>
      extractTranscriptText d w =
        (Inr [], w\<lparr>console := console w @
           [StdErr ''Error extracting transcript: No valid transcript segments found in the JSON structure'']\<rparr>)) \<and>
   (isArray (initialSegments d) \<longrightarrow>
      (\<exists>lines. extractTranscriptText d w = (Inr lines, w) \<and>
         set lines \<subseteq> segmentText ` set (elements (initialSegments d))))"
  by (auto simp: extractTranscriptText_run noSegmentsMessage_def)

theorem extract_never_raises_witness:
  "extractTranscriptText (JStr ''text'' :: int jsval) simple_world =
     (Inr [], simple_world\<lparr>console := console simple_world @
        [StdErr ''Error extracting transcript: No valid transcript segments found in the JSON structure'']\<rparr>) \<and>
   extractTranscriptText (JObj [(''actions'', JNum 3)] :: int jsval) simple_world =
     extractTranscriptText (JStr ''text'' :: int jsval) simple_world \<and>
   extractTranscriptText (JObj [(''actions'', JArr [])] :: int jsval) simple_world =
     extractTranscriptText (JStr ''text'' :: int jsval) simple_world \<and>
   extractTranscriptText (envelope (JStr ''segments'') :: int jsval) simple_world =
     extractTranscriptText (JStr ''text'' :: int jsval) simple_world \<and>
   extractTranscriptText (envelope (JArr [JNum 1, segment (JStr ''a'')]) :: int jsval) simple_world =
     (Inr [JStr ''a''], simple_world)"
  using extract_never_raises [of "JStr ''text'' :: int jsval" simple_world]
    extract_never_raises [of "JObj [(''actions'', JNum 3)] :: int jsval" simple_world]
    extract_never_raises [of "JObj [(''actions'', JArr [])] :: int jsval" simple_world]
    extract_never_raises [of "envelope (JStr ''segments'') :: int jsval" simple_world]
    extract_never_raises [of "envelope (JArr [JNum 1, segment (JStr ''a'')]) :: int jsval" simple_world]
  by (simp add: extractTranscriptText_run initialSegments_def envelope_def segmentText_def
      segment_def keptText_def noSegmentsMessage_def)

text \<open>
  C9. The filter of line 26 does not ask for a string: when the segment list is
  found and a segment's chain resolves to a value that is not a string and is
  neither \<^verbatim>\<open>undefined\<close> nor \<^verbatim>\<open>null\<close> (a number, a boolean, an array, an
  object), that value is an element of the returned sequence.
\<close>

theorem extract_keeps_non_string_values:
  "initialSegments d = JArr segs \<Longrightarrow> s \<in> set segs \<Longrightarrow>
   segmentText s \<noteq> JUndefined \<Longrightarrow> segmentText s \<noteq> JNull \<Longrightarrow> \<not> isString (segmentText s) \<Longrightarrow>
   \<exists>lines. extractTranscriptText d w = (Inr lines, w) \<and> segmentText s \<in> set lines"
proof -
  assume segs: "initialSegments d = JArr segs" and s: "s \<in> set segs"
    and "segmentText s \<noteq> JUndefined" "segmentText s \<noteq> JNull" "\<not> isString (segmentText s)"
  then have "keptText (segmentText s)"
    by (cases "segmentText s") (simp_all add: keptText_def)
  with s have "segmentText s \<in> set (filter keptText (map segmentText segs))"
    by simp
  with segs show ?thesis
    by (simp add: extractTranscriptText_segments)
qed

theorem extract_keeps_non_string_values_witness:
  "initialSegments (envelope (JArr [segment (JStr ''a''), segment (JNum 42), segment (JObj [])]) :: int jsval)
     = JArr [segment (JStr ''a''), segment (JNum 42), segment (JObj [])] \<and>
   segment (JNum 42) \<in> set [segment (JStr ''a''), segment (JNum 42), segment (JObj [])] \<and>
   segmentText (segment (JNum 42) :: int jsval) = JNum 42 \<and>
   \<not> isString (JNum 42 :: int jsval) \<and>
   extractTranscriptText
     (envelope (JArr [segment (JStr ''a''), segment (JNum 42), segment (JObj [])]) :: int jsval)
     simple_world
     = (Inr [JStr ''a'', JNum 42, JObj []], simple_world)"
  using extract_keeps_non_string_values
    [of "envelope (JArr [segment (JStr ''a''), segment (JNum 42), segment (JObj [])]) :: int jsval"
        "[segment (JStr ''a''), segment (JNum 42), segment (JObj [])]"
        "segment (JNum 42)" simple_world]
  by (simp add: extractTranscriptText_run initialSegments_def envelope_def segmentText_def
      segment_def keptText_def noSegmentsMessage_def)

section \<open>Facts about the file processor\<close>

lemma processTranscript_catch_run:
  "processTranscript_catch e w =
     (Inr False,
      w\<lparr>console := console w @ [StdErr (''Error processing transcript: '' @ message e)]\<rparr>)"
  by (simp add: processTranscript_catch_def js_bind_def js_return_def console_error_def)

text \<open>
  What a call of \<open>processTranscript\<close> does, with every \<^verbatim>\<open>throw\<close> taken to the
  handler of line 82: one branch per place where the body of the \<^verbatim>\<open>try\<close> can
  stop.
\<close>

lemma processTranscript_run:
  "processTranscript h i out w =
    (if \<not> existsSync h (fs w) (path_resolve h i)
     then processTranscript_catch (Error (''Input file not found: '' @ path_resolve h i)) w
     else
      (case readFileSync h (fs w) (path_resolve h i) of
         Inl e \<Rightarrow> processTranscript_catch e (afterReadingLog h i w)
       | Inr c \<Rightarrow>
          (case JSON_parse h c of
             Inl e \<Rightarrow> processTranscript_catch (Error (''Failed to parse JSON: '' @ message e))
                        (afterReadingLog h i w)
           | Inr d \<Rightarrow>
              (case extractTranscriptText d (afterReadingLog h i w) of
                 (Inl e, w1) \<Rightarrow> processTranscript_catch e w1
               | (Inr lines, w1) \<Rightarrow>
                  if lines = []
                  then processTranscript_catch (Error ''No transcript lines were extracted'') w1
                  else
                   (case (if existsSync h (fs w1) (path_dirname h (path_resolve h out))
                          then (None, fs w1)
                          else mkdirSync h (fs w1) (path_dirname h (path_resolve h out))) of
                      (Some e, f1) \<Rightarrow> processTranscript_catch e (w1\<lparr>fs := f1\<rparr>)
                    | (None, f1) \<Rightarrow>
                       (case Array_join (Number_toString h) ''\<newline>'' lines of
                          Inl e \<Rightarrow> processTranscript_catch e (w1\<lparr>fs := f1\<rparr>)
                        | Inr t \<Rightarrow>
                           (case writeFileSync h f1 (path_resolve h out) t of
                              (Some e, f2) \<Rightarrow> processTranscript_catch e (w1\<lparr>fs := f2\<rparr>)
                            | (None, f2) \<Rightarrow>
                               (Inr True,
                                w1\<lparr>fs := f2,
                                   console := console w1 @
                                     [StdOut (''Successfully extracted ''
                                        @ string_of_nat (length lines) @ '' lines''),
                                      StdOut (''Transcript saved to: '' @ path_resolve h out)]\<rparr>))))))))"
  by (auto simp: processTranscript_def processTranscript_try_def js_try_def js_bind_def
      js_return_def js_throw_def js_lift_def console_log_def fs_existsSync_def
      fs_readFileSync_def fs_mkdirSync_def fs_writeFileSync_def Let_def afterReadingLog_def
      split: sum.splits prod.splits option.splits)

lemma processTranscript_input_missing:
  assumes "inputNotFound h i w"
  shows "processTranscript h i out w =
    processTranscript_catch (Error (''Input file not found: '' @ path_resolve h i)) w"
  using assms by (simp add: processTranscript_run inputNotFound_def)

lemma processTranscript_invalid_json:
  assumes "invalidJson h i w"
  shows "\<exists>e. processTranscript h i out w =
    processTranscript_catch (Error (''Failed to parse JSON: '' @ message e)) (afterReadingLog h i w)"
  using assms by (auto simp: processTranscript_run invalidJson_def split: sum.splits)

lemma processTranscript_no_lines:
  assumes "noLinesExtracted h i w"
  shows "\<exists>w1. fs w1 = fs w \<and> processTranscript h i out w =
    processTranscript_catch (Error ''No transcript lines were extracted'') w1"
proof -
  from assms obtain c d where ex: "existsSync h (fs w) (path_resolve h i)"
    and rd: "readFileSync h (fs w) (path_resolve h i) = Inr c"
    and pa: "JSON_parse h c = Inr d"
    and li: "fst (extractTranscriptText d (afterReadingLog h i w)) = Inr []"
    by (auto simp: noLinesExtracted_def split: sum.splits)
  obtain w1 where run: "extractTranscriptText d (afterReadingLog h i w) = (Inr [], w1)"
    using li by (cases "extractTranscriptText d (afterReadingLog h i w)") simp
  have "fs w1 = fs (afterReadingLog h i w)"
    using extractTranscriptText_fs [of d "afterReadingLog h i w"] run by simp
  then have "fs w1 = fs w"
    by (simp add: afterReadingLog_def)
  moreover have "processTranscript h i out w =
      processTranscript_catch (Error ''No transcript lines were extracted'') w1"
    using ex rd pa run by (simp add: processTranscript_run)
  ultimately show ?thesis by blast
qed

lemma processTranscript_named_failure:
  assumes "inputNotFound h i w \<or> invalidJson h i w \<or> noLinesExtracted h i w"
  shows "\<exists>e w1. fs w1 = fs w \<and> processTranscript h i out w = processTranscript_catch e w1"
proof -
  have "fs (afterReadingLog h i w) = fs w"
    by (simp add: afterReadingLog_def)
  then show ?thesis
    using assms processTranscript_input_missing [of h i w out]
      processTranscript_invalid_json [of h i w out] processTranscript_no_lines [of h i w out]
    by metis
qed

lemma processTranscript_outcome:
  "(\<exists>e w1. processTranscript h i out w = processTranscript_catch e w1) \<or>
   (\<exists>w'. processTranscript h i out w = (Inr True, w'))"
  unfolding processTranscript_def js_try_def
  by (cases "processTranscript_try h i out w" rule: prod.exhaust)
    (auto simp: processTranscript_try_def js_bind_def js_return_def js_throw_def Let_def
      split: sum.splits prod.splits if_splits)

lemma processTranscript_True_inversion:
  assumes "processTranscript h i out w = (Inr True, w')"
  shows "\<exists>c d lines w1 f1 t.
           existsSync h (fs w) (path_resolve h i) \<and>
           readFileSync h (fs w) (path_resolve h i) = Inr c \<and>
           JSON_parse h c = Inr d \<and>
           extractTranscriptText d (afterReadingLog h i w) = (Inr lines, w1) \<and>
           lines \<noteq> [] \<and>
           Array_join (Number_toString h) ''\<newline>'' lines = Inr t \<and>
           writeFileSync h f1 (path_resolve h out) t = (None, fs w')"
  using assms unfolding processTranscript_run processTranscript_catch_run
  by (auto split: if_splits sum.splits prod.splits option.splits)

lemma processTranscript_fs_changed_inversion:
  assumes "fs (snd (processTranscript h i out w)) \<noteq> fs w"
  shows "\<exists>c d lines w1.
           existsSync h (fs w) (path_resolve h i) \<and>
           readFileSync h (fs w) (path_resolve h i) = Inr c \<and>
           JSON_parse h c = Inr d \<and>
           extractTranscriptText d (afterReadingLog h i w) = (Inr lines, w1) \<and>
           lines \<noteq> []"
  using assms unfolding processTranscript_run processTranscript_catch_run
  by (auto simp: afterReadingLog_def extractTranscriptText_run
      split: if_splits sum.splits prod.splits option.splits)

text \<open>Evaluation on the small host.\<close>

lemmas simple_host_simps =
  simple_host_def simple_resolve_def simple_dirname_def simple_parse_def simple_world_def
  afterReadingLog_def inputNotFound_def invalidJson_def noLinesExtracted_def

lemmas extract_simps =
  extractTranscriptText_run initialSegments_def envelope_def segmentText_def segment_def
  keptText_def noSegmentsMessage_def helloDocument_def

lemma extract_helloDocument:
  "extractTranscriptText helloDocument w = (Inr [JStr ''Hello'', JStr ''world''], w)"
  by (simp add: extract_simps)

lemma string_of_nat_two: "string_of_nat (Suc (Suc 0)) = ''2''"
  by (simp add: string_of_nat.simps [of "Suc (Suc 0)"])

lemma join_hello:
  "Array_join num ''\<newline>'' [JStr ''Hello'', JStr ''world''] = Inr ''Hello\<newline>world''"
  by (simp add: Array_join_def)

text \<open>
  C1. The document of the expected shape with the two segments \<^verbatim>\<open>Hello\<close> and
  \<^verbatim>\<open>world\<close> extracts to \<^verbatim>\<open>["Hello", "world"]\<close>. When the input file holds a
  text that parses to it, and the directory step and the write succeed,
  \<open>processTranscript\<close> returns true, and the file system it leaves is the one
  \<^verbatim>\<open>writeFileSync\<close> produced for the resolved output path and the content
  \<^verbatim>\<open>Hello\<close>, one newline, \<^verbatim>\<open>world\<close>, with nothing after it.
\<close>

theorem happy_path_hello_world:
  assumes "existsSync h (fs w) (path_resolve h i)"
    and "readFileSync h (fs w) (path_resolve h i) = Inr c"
    and "JSON_parse h c = Inr helloDocument"
    and "(if existsSync h (fs w) (path_dirname h (path_resolve h out))
          then (None, fs w)
          else mkdirSync h (fs w) (path_dirname h (path_resolve h out))) = (None, f1)"
    and "writeFileSync h f1 (path_resolve h out) ''Hello\<newline>world'' = (None, f2)"
  shows "extractTranscriptText (helloDocument :: ('n::zero) jsval) w
           = (Inr [JStr ''Hello'', JStr ''world''], w) \<and>
         processTranscript (h :: ('n, 'fs) host) i out w =
           (Inr True,
            w\<lparr>fs := f2,
              console := console w @
                [StdOut (''Reading file: '' @ path_resolve h i),
                 StdOut ''Successfully extracted 2 lines'',
                 StdOut (''Transcript saved to: '' @ path_resolve h out)]\<rparr>)"
proof (cases "existsSync h (fs w) (path_dirname h (path_resolve h out))")
  case True
  with assms(4) have "f1 = fs w"
    by simp
  with True assms(1,2,3,5) show ?thesis
    by (simp add: processTranscript_run extract_helloDocument join_hello afterReadingLog_def
        string_of_nat_two)
next
  case False
  with assms(4) have "mkdirSync h (fs w) (path_dirname h (path_resolve h out)) = (None, f1)"
    by simp
  with False assms(1,2,3,5) show ?thesis
    by (simp add: processTranscript_run extract_helloDocument join_hello afterReadingLog_def
        string_of_nat_two)
qed

theorem happy_path_hello_world_witness:
  "existsSync simple_host (fs simple_world) (path_resolve simple_host ''input.json'') \<and>
   readFileSync simple_host (fs simple_world) (path_resolve simple_host ''input.json'')
     = Inr helloText \<and>
   JSON_parse simple_host helloText = Inr helloDocument \<and>
   path_resolve simple_host ''out/t.txt'' = ''/work/out/t.txt'' \<and>
   \<not> existsSync simple_host (fs simple_world) ''/work/out'' \<and>
   processTranscript simple_host ''input.json'' ''out/t.txt'' simple_world =
     (Inr True,
      simple_world
        \<lparr>fs := (fs simple_world)
           \<lparr>files := (''/work/out/t.txt'', ''Hello\<newline>world'') # files (fs simple_world),
            dirs := ''/work/out'' # dirs (fs simple_world)\<rparr>,
         console :=
           [StdOut ''Reading file: /work/input.json'',
            StdOut ''Successfully extracted 2 lines'',
            StdOut ''Transcript saved to: /work/out/t.txt'']\<rparr>)"
proof -
  have h1: "existsSync simple_host (fs simple_world) (path_resolve simple_host ''input.json'')"
    by (simp add: simple_host_simps)
  have h2: "readFileSync simple_host (fs simple_world) (path_resolve simple_host ''input.json'')
     = Inr helloText"
    by (simp add: simple_host_simps)
  have h3: "JSON_parse simple_host helloText = Inr helloDocument"
    by (simp add: simple_host_simps)
  have h4: "(if existsSync simple_host (fs simple_world)
                 (path_dirname simple_host (path_resolve simple_host ''out/t.txt''))
             then (None, fs simple_world)
             else mkdirSync simple_host (fs simple_world)
                 (path_dirname simple_host (path_resolve simple_host ''out/t.txt'')))
            = (None, (fs simple_world)\<lparr>dirs := ''/work/out'' # dirs (fs simple_world)\<rparr>)"
    by (simp add: simple_host_simps)
  have h5: "writeFileSync simple_host
              ((fs simple_world)\<lparr>dirs := ''/work/out'' # dirs (fs simple_world)\<rparr>)
              (path_resolve simple_host ''out/t.txt'') ''Hello\<newline>world''
            = (None, (fs simple_world)
                 \<lparr>files := (''/work/out/t.txt'', ''Hello\<newline>world'') # files (fs simple_world),
                  dirs := ''/work/out'' # dirs (fs simple_world)\<rparr>)"
    by (simp add: simple_host_simps)
  have h6: "path_resolve simple_host ''out/t.txt'' = ''/work/out/t.txt''"
    "path_resolve simple_host ''input.json'' = ''/work/input.json''"
    "\<not> existsSync simple_host (fs simple_world) ''/work/out''"
    "console simple_world = []"
    by (simp_all add: simple_host_simps)
  from happy_path_hello_world [OF h1 h2 h3 h4 h5] h1 h2 h3 h6 show ?thesis
    by simp
qed

text \<open>
  C5. \<open>processTranscript\<close> returns a boolean from every host, pair of paths and
  world, and throws nothing. Whenever it returns false, the last line on the
  console is the diagnostic of the handler, and it returns false when the input
  is not found, when it is not valid JSON, and when no line is extracted.
\<close>

theorem processTranscript_never_raises:
  "\<exists>b w'. processTranscript h i out w = (Inr b, w') \<and>
     (\<not> b \<longrightarrow> (\<exists>cs m. console w' = cs @ [StdErr (''Error processing transcript: '' @ m)])) \<and>
     (inputNotFound h i w \<or> invalidJson h i w \<or> noLinesExtracted h i w \<longrightarrow> \<not> b)"
proof -
  consider (caught) e w1 where "processTranscript h i out w = processTranscript_catch e w1"
    | (succeeded) w' where "processTranscript h i out w = (Inr True, w')"
    using processTranscript_outcome [of h i out w] by blast
  then show ?thesis
  proof cases
    case caught
    then show ?thesis
      by (auto simp: processTranscript_catch_run)
  next
    case succeeded
    have "\<not> (inputNotFound h i w \<or> invalidJson h i w \<or> noLinesExtracted h i w)"
    proof
      assume "inputNotFound h i w \<or> invalidJson h i w \<or> noLinesExtracted h i w"
      then obtain e w1 where "processTranscript h i out w = processTranscript_catch e w1"
        using processTranscript_named_failure [of h i w out] by blast
      with succeeded show False
        by (simp add: processTranscript_catch_run)
    qed
    with succeeded show ?thesis
      by auto
  qed
qed

theorem processTranscript_never_raises_witness:
  "inputNotFound simple_host ''nope.json'' simple_world \<and>
   processTranscript simple_host ''nope.json'' ''out/t.txt'' simple_world =
     (Inr False, simple_world\<lparr>console :=
        [StdErr ''Error processing transcript: Input file not found: /work/nope.json'']\<rparr>) \<and>
   invalidJson simple_host ''bad.json'' simple_world \<and>
   processTranscript simple_host ''bad.json'' ''out/t.txt'' simple_world =
     (Inr False, simple_world\<lparr>console :=
        [StdOut ''Reading file: /work/bad.json'',
         StdErr ''Error processing transcript: Failed to parse JSON: Unexpected token in JSON'']\<rparr>) \<and>
   noLinesExtracted simple_host ''empty.json'' simple_world \<and>
   processTranscript simple_host ''empty.json'' ''out/t.txt'' simple_world =
     (Inr False, simple_world\<lparr>console :=
        [StdOut ''Reading file: /work/empty.json'',
         StdErr ''Error extracting transcript: No valid transcript segments found in the JSON structure'',
         StdErr ''Error processing transcript: No transcript lines were extracted'']\<rparr>)"
  using processTranscript_never_raises [of simple_host "''nope.json''" "''out/t.txt''" simple_world]
    processTranscript_never_raises [of simple_host "''bad.json''" "''out/t.txt''" simple_world]
    processTranscript_never_raises [of simple_host "''empty.json''" "''out/t.txt''" simple_world]
  by (simp add: processTranscript_run processTranscript_catch_run simple_host_simps extract_simps
      helloText_def)

text \<open>
  C7. When the input path does not exist, when the input does not parse as
  JSON, and when extraction yields no line, \<open>processTranscript\<close> returns false
  and leaves the file system exactly as it found it: nothing is written.
\<close>

theorem failure_returns_false_and_writes_nothing:
  "inputNotFound h i w \<or> invalidJson h i w \<or> noLinesExtracted h i w \<Longrightarrow>
   fst (processTranscript h i out w) = Inr False \<and>
   fs (snd (processTranscript h i out w)) = fs w"
proof -
  assume "inputNotFound h i w \<or> invalidJson h i w \<or> noLinesExtracted h i w"
  then obtain e w1 where "fs w1 = fs w"
    and "processTranscript h i out w = processTranscript_catch e w1"
    using processTranscript_named_failure [of h i w out] by blast
  then show ?thesis
    by (simp add: processTranscript_catch_run)
qed

theorem failure_returns_false_and_writes_nothing_witness:
  "inputNotFound simple_host ''nope.json'' simple_world \<and>
   fst (processTranscript simple_host ''nope.json'' ''out/t.txt'' simple_world) = Inr False \<and>
   fs (snd (processTranscript simple_host ''nope.json'' ''out/t.txt'' simple_world))
     = fs simple_world \<and>
   invalidJson simple_host ''bad.json'' simple_world \<and>
   fst (processTranscript simple_host ''bad.json'' ''out/t.txt'' simple_world) = Inr False \<and>
   fs (snd (processTranscript simple_host ''bad.json'' ''out/t.txt'' simple_world))
     = fs simple_world \<and>
   noLinesExtracted simple_host ''empty.json'' simple_world \<and>
   fst (processTranscript simple_host ''empty.json'' ''out/t.txt'' simple_world) = Inr False \<and>
   fs (snd (processTranscript simple_host ''empty.json'' ''out/t.txt'' simple_world))
     = fs simple_world"
proof -
  have a: "inputNotFound simple_host ''nope.json'' simple_world"
    by (simp add: simple_host_simps)
  have b: "invalidJson simple_host ''bad.json'' simple_world"
    by (simp add: simple_host_simps helloText_def)
  have c: "noLinesExtracted simple_host ''empty.json'' simple_world"
    by (simp add: simple_host_simps helloText_def extract_simps)
  from a b c
    failure_returns_false_and_writes_nothing [of simple_host "''nope.json''" simple_world "''out/t.txt''"]
    failure_returns_false_and_writes_nothing [of simple_host "''bad.json''" simple_world "''out/t.txt''"]
    failure_returns_false_and_writes_nothing [of simple_host "''empty.json''" simple_world "''out/t.txt''"]
  show ?thesis
    by blast
qed

text \<open>
  C10. On the three named failures the file system after the run is the file
  system before it, so no directory has been created; and a run that changes
  the file system at all has read and parsed its input and extracted at least
  one line first, since \<^verbatim>\<open>mkdirSync\<close> and \<^verbatim>\<open>writeFileSync\<close> come after the
  check of line 64.
\<close>

theorem no_directory_created_before_lines:
  "(inputNotFound h i w \<or> invalidJson h i w \<or> noLinesExtracted h i w \<longrightarrow>
      fs (snd (processTranscript h i out w)) = fs w) \<and>
   (fs (snd (processTranscript h i out w)) \<noteq> fs w \<longrightarrow>
      (\<exists>c d lines w1.
          existsSync h (fs w) (path_resolve h i) \<and>
          readFileSync h (fs w) (path_resolve h i) = Inr c \<and>
          JSON_parse h c = Inr d \<and>
          extractTranscriptText d (afterReadingLog h i w) = (Inr lines, w1) \<and>
          lines \<noteq> []))"
proof (intro conjI impI)
  assume "inputNotFound h i w \<or> invalidJson h i w \<or> noLinesExtracted h i w"
  then obtain e w1 where "fs w1 = fs w"
    and "processTranscript h i out w = processTranscript_catch e w1"
    using processTranscript_named_failure [of h i w out] by blast
  then show "fs (snd (processTranscript h i out w)) = fs w"
    by (simp add: processTranscript_catch_run)
next
  assume "fs (snd (processTranscript h i out w)) \<noteq> fs w"
  then show "\<exists>c d lines w1.
          existsSync h (fs w) (path_resolve h i) \<and>
          readFileSync h (fs w) (path_resolve h i) = Inr c \<and>
          JSON_parse h c = Inr d \<and>
          extractTranscriptText d (afterReadingLog h i w) = (Inr lines, w1) \<and>
          lines \<noteq> []"
    by (rule processTranscript_fs_changed_inversion)
qed

text \<open>The two runs of the small host that reach the directory step.\<close>

lemma simple_run_hello:
  \<open>processTranscript simple_host ''input.json'' ''out/t.txt'' simple_world =
     (Inr True,
      \<lparr>fs = \<lparr>files = [(''/work/out/t.txt'', ''Hello\<newline>world''),
                       (''/work/input.json'', helloText),
                       (''/work/bad.json'', ''{not valid json''),
                       (''/work/empty.json'', ''{}'')],
              dirs = [''/work/out'', ''/work''],
              readonly = [''/locked'', ''/work/locked.txt'']\<rparr>,
       console =
         [StdOut ''Reading file: /work/input.json'',
          StdOut ''Successfully extracted 2 lines'',
          StdOut ''Transcript saved to: /work/out/t.txt'']\<rparr>)\<close>
  by (simp add: processTranscript_run simple_host_simps extract_helloDocument join_hello
      string_of_nat_two)

theorem no_directory_created_before_lines_witness:
  "inputNotFound simple_host ''nope.json'' simple_world \<and>
   dirs (fs (snd (processTranscript simple_host ''nope.json'' ''out/t.txt'' simple_world)))
     = [''/work''] \<and>
   invalidJson simple_host ''bad.json'' simple_world \<and>
   dirs (fs (snd (processTranscript simple_host ''bad.json'' ''out/t.txt'' simple_world)))
     = [''/work''] \<and>
   noLinesExtracted simple_host ''empty.json'' simple_world \<and>
   dirs (fs (snd (processTranscript simple_host ''empty.json'' ''out/t.txt'' simple_world)))
     = [''/work''] \<and>
   fs (snd (processTranscript simple_host ''input.json'' ''out/t.txt'' simple_world))
     \<noteq> fs simple_world \<and>
   extractTranscriptText helloDocument (afterReadingLog simple_host ''input.json'' simple_world)
     = (Inr [JStr ''Hello'', JStr ''world''],
        afterReadingLog simple_host ''input.json'' simple_world)"
proof -
  have a: "inputNotFound simple_host ''nope.json'' simple_world"
    by (simp add: simple_host_simps)
  have b: "invalidJson simple_host ''bad.json'' simple_world"
    by (simp add: simple_host_simps helloText_def)
  have c: "noLinesExtracted simple_host ''empty.json'' simple_world"
    by (simp add: simple_host_simps helloText_def extract_simps)
  have d: "fs (snd (processTranscript simple_host ''input.json'' ''out/t.txt'' simple_world))
     \<noteq> fs simple_world"
    unfolding simple_run_hello by (simp add: simple_world_def)
  have e: "dirs (fs simple_world) = [''/work'']"
    by (simp add: simple_world_def)
  from a b c d e
    no_directory_created_before_lines [of simple_host "''nope.json''" simple_world "''out/t.txt''"]
    no_directory_created_before_lines [of simple_host "''bad.json''" simple_world "''out/t.txt''"]
    no_directory_created_before_lines [of simple_host "''empty.json''" simple_world "''out/t.txt''"]
    no_directory_created_before_lines [of simple_host "''input.json''" simple_world "''out/t.txt''"]
  show ?thesis
    by (simp add: extract_helloDocument)
qed

text \<open>
  C6, as the code has it. The claim that a failing \<^verbatim>\<open>mkdirSync\<close> or
  \<^verbatim>\<open>writeFileSync\<close> escapes \<open>processTranscript\<close> is false: on the small host,
  writing to a path that refuses the write, and creating a directory that refuses
  to be created, both end in a false return.
\<close>

theorem write_failure_escapes_counterexample:
  "writeFileSync simple_host (fs simple_world) (path_resolve simple_host ''locked.txt'')
      ''Hello\<newline>world''
     = (Some (SystemError ''EACCES: permission denied, open /work/locked.txt''), fs simple_world) \<and>
   processTranscript simple_host ''input.json'' ''locked.txt'' simple_world =
     (Inr False,
      simple_world\<lparr>console :=
        [StdOut ''Reading file: /work/input.json'',
         StdErr ''Error processing transcript: EACCES: permission denied, open /work/locked.txt'']\<rparr>) \<and>
   mkdirSync simple_host (fs simple_world)
      (path_dirname simple_host (path_resolve simple_host ''/locked/t.txt''))
     = (Some (SystemError ''EACCES: permission denied, mkdir /locked''), fs simple_world) \<and>
   processTranscript simple_host ''input.json'' ''/locked/t.txt'' simple_world =
     (Inr False,
      simple_world\<lparr>console :=
        [StdOut ''Reading file: /work/input.json'',
         StdErr ''Error processing transcript: EACCES: permission denied, mkdir /locked'']\<rparr>)"
  by (simp add: processTranscript_run processTranscript_catch_run simple_host_simps
      extract_helloDocument join_hello)

text \<open>
  C6, amended. Directory creation and the final write stand inside the
  \<^verbatim>\<open>try\<close> of lines 40 to 85. Once at least one line has been extracted, a
  failing \<^verbatim>\<open>mkdirSync\<close>, and a failing \<^verbatim>\<open>writeFileSync\<close> after a successful
  directory step and join, are caught: the error's message is logged after
  \<^verbatim>\<open>Error processing transcript:\<close> and \<open>processTranscript\<close> returns false. No
  fault reaches the caller.
\<close>

theorem directory_or_write_failure_is_caught:
  assumes "existsSync h (fs w) (path_resolve h i)"
    and "readFileSync h (fs w) (path_resolve h i) = Inr c"
    and "JSON_parse h c = Inr d"
    and "extractTranscriptText d (afterReadingLog h i w) = (Inr lines, w1)"
    and "lines \<noteq> []"
  shows "(\<not> existsSync h (fs w) (path_dirname h (path_resolve h out)) \<and>
          mkdirSync h (fs w) (path_dirname h (path_resolve h out)) = (Some e, f1) \<longrightarrow>
            processTranscript h i out w =
              (Inr False,
               w1\<lparr>fs := f1,
                  console := console w1 @
                    [StdErr (''Error processing transcript: '' @ message e)]\<rparr>)) \<and>
         ((if existsSync h (fs w) (path_dirname h (path_resolve h out))
           then (None, fs w)
           else mkdirSync h (fs w) (path_dirname h (path_resolve h out))) = (None, f1') \<and>
          Array_join (Number_toString h) ''\<newline>'' lines = Inr t \<and>
          writeFileSync h f1' (path_resolve h out) t = (Some e', f2) \<longrightarrow>
            processTranscript h i out w =
              (Inr False,
               w1\<lparr>fs := f2,
                  console := console w1 @
                    [StdErr (''Error processing transcript: '' @ message e')]\<rparr>))"
proof -
  have "fs w1 = fs (afterReadingLog h i w)"
    using extractTranscriptText_fs [of d "afterReadingLog h i w"] assms(4) by simp
  then have same: "fs w1 = fs w"
    by (simp add: afterReadingLog_def)
  show ?thesis
  proof (intro conjI impI)
    assume "\<not> existsSync h (fs w) (path_dirname h (path_resolve h out)) \<and>
          mkdirSync h (fs w) (path_dirname h (path_resolve h out)) = (Some e, f1)"
    with assms same show "processTranscript h i out w =
              (Inr False,
               w1\<lparr>fs := f1,
                  console := console w1 @
                    [StdErr (''Error processing transcript: '' @ message e)]\<rparr>)"
      by (simp add: processTranscript_run processTranscript_catch_run)
  next
    assume late: "(if existsSync h (fs w) (path_dirname h (path_resolve h out))
           then (None, fs w)
           else mkdirSync h (fs w) (path_dirname h (path_resolve h out))) = (None, f1') \<and>
          Array_join (Number_toString h) ''\<newline>'' lines = Inr t \<and>
          writeFileSync h f1' (path_resolve h out) t = (Some e', f2)"
    show "processTranscript h i out w =
              (Inr False,
               w1\<lparr>fs := f2,
                  console := console w1 @
                    [StdErr (''Error processing transcript: '' @ message e')]\<rparr>)"
    proof (cases "existsSync h (fs w) (path_dirname h (path_resolve h out))")
      case True
      with late have "f1' = fs w"
        by simp
      with True late assms same show ?thesis
        by (simp add: processTranscript_run processTranscript_catch_run)
    next
      case False
      with late have "mkdirSync h (fs w) (path_dirname h (path_resolve h out)) = (None, f1')"
        by simp
      with False late assms same show ?thesis
        by (simp add: processTranscript_run processTranscript_catch_run)
    qed
  qed
qed

theorem directory_or_write_failure_is_caught_witness:
  "existsSync simple_host (fs simple_world) (path_resolve simple_host ''input.json'') \<and>
   readFileSync simple_host (fs simple_world) (path_resolve simple_host ''input.json'')
     = Inr helloText \<and>
   JSON_parse simple_host helloText = Inr helloDocument \<and>
   extractTranscriptText helloDocument (afterReadingLog simple_host ''input.json'' simple_world)
     = (Inr [JStr ''Hello'', JStr ''world''],
        afterReadingLog simple_host ''input.json'' simple_world) \<and>
   \<not> existsSync simple_host (fs simple_world)
        (path_dirname simple_host (path_resolve simple_host ''/locked/t.txt'')) \<and>
   mkdirSync simple_host (fs simple_world)
        (path_dirname simple_host (path_resolve simple_host ''/locked/t.txt''))
     = (Some (SystemError ''EACCES: permission denied, mkdir /locked''), fs simple_world) \<and>
   fst (processTranscript simple_host ''input.json'' ''/locked/t.txt'' simple_world) = Inr False \<and>
   existsSync simple_host (fs simple_world)
        (path_dirname simple_host (path_resolve simple_host ''locked.txt'')) \<and>
   Array_join (Number_toString simple_host) ''\<newline>'' [JStr ''Hello'', JStr ''world'']
     = Inr ''Hello\<newline>world'' \<and>
   writeFileSync simple_host (fs simple_world) (path_resolve simple_host ''locked.txt'')
        ''Hello\<newline>world''
     = (Some (SystemError ''EACCES: permission denied, open /work/locked.txt''), fs simple_world) \<and>
   fst (processTranscript simple_host ''input.json'' ''locked.txt'' simple_world) = Inr False"
proof -
  have h1: "existsSync simple_host (fs simple_world) (path_resolve simple_host ''input.json'')"
    by (simp add: simple_host_simps)
  have h2: "readFileSync simple_host (fs simple_world) (path_resolve simple_host ''input.json'')
     = Inr helloText"
    by (simp add: simple_host_simps)
  have h3: "JSON_parse simple_host helloText = Inr helloDocument"
    by (simp add: simple_host_simps)
  have h4: "extractTranscriptText helloDocument
       (afterReadingLog simple_host ''input.json'' simple_world)
     = (Inr [JStr ''Hello'', JStr ''world''],
        afterReadingLog simple_host ''input.json'' simple_world)"
    by (rule extract_helloDocument)
  have h5: "[JStr ''Hello'', JStr ''world''] \<noteq> ([] :: int jsval list)"
    by simp
  have m: "\<not> existsSync simple_host (fs simple_world)
        (path_dirname simple_host (path_resolve simple_host ''/locked/t.txt''))"
    "mkdirSync simple_host (fs simple_world)
        (path_dirname simple_host (path_resolve simple_host ''/locked/t.txt''))
     = (Some (SystemError ''EACCES: permission denied, mkdir /locked''), fs simple_world)"
    by (simp_all add: simple_host_simps)
  have wr: "existsSync simple_host (fs simple_world)
        (path_dirname simple_host (path_resolve simple_host ''locked.txt''))"
    "Array_join (Number_toString simple_host) ''\<newline>'' [JStr ''Hello'', JStr ''world'']
     = Inr ''Hello\<newline>world''"
    "writeFileSync simple_host (fs simple_world) (path_resolve simple_host ''locked.txt'')
        ''Hello\<newline>world''
     = (Some (SystemError ''EACCES: permission denied, open /work/locked.txt''), fs simple_world)"
    by (simp_all add: simple_host_simps join_hello)
  from directory_or_write_failure_is_caught [OF h1 h2 h3 h4 h5,
      of "''/locked/t.txt''" "SystemError ''EACCES: permission denied, mkdir /locked''"
         "fs simple_world"] m
  have r1: "fst (processTranscript simple_host ''input.json'' ''/locked/t.txt'' simple_world)
      = Inr False"
    by simp
  from directory_or_write_failure_is_caught [OF h1 h2 h3 h4 h5,
      of "''locked.txt''" _ _ "fs simple_world" "''Hello\<newline>world''"
         "SystemError ''EACCES: permission denied, open /work/locked.txt''" "fs simple_world"] wr
  have r2: "fst (processTranscript simple_host ''input.json'' ''locked.txt'' simple_world)
      = Inr False"
    by simp
  from h1 h2 h3 h4 m wr r1 r2 show ?thesis
    by blast
qed

text \<open>
  C8. For a host, an input path, an output path and an input content there is
  one text such that every successful run that reads this content ends with
  \<^verbatim>\<open>writeFileSync\<close> having written that text to the resolved output path,
  whatever the file system was before: the first run and a run repeated on the
  file system the first one left write the same bytes.
\<close>

theorem written_content_is_function_of_input:
  fixes h :: "('n::zero, 'fs) host"
  shows "\<exists>t. \<forall>w w'.
      readFileSync h (fs w) (path_resolve h i) = Inr c \<and>
      processTranscript h i out w = (Inr True, w') \<longrightarrow>
      (\<exists>f. writeFileSync h f (path_resolve h out) t = (None, fs w'))"
proof -
  define linesOf where "linesOf d =
     (if isArray (initialSegments d)
      then filter keptText (map segmentText (elements (initialSegments d))) else [])"
    for d :: "'n jsval"
  define t0 where "t0 =
     (case JSON_parse h c of
        Inl e \<Rightarrow> []
      | Inr d \<Rightarrow>
          (case Array_join (Number_toString h) ''\<newline>'' (linesOf d) of
             Inl e \<Rightarrow> []
           | Inr t \<Rightarrow> t))"
  have "\<exists>f. writeFileSync h f (path_resolve h out) t0 = (None, fs w')"
    if rd: "readFileSync h (fs w) (path_resolve h i) = Inr c"
      and run: "processTranscript h i out w = (Inr True, w')" for w w'
  proof -
    from processTranscript_True_inversion [OF run]
    obtain c' d lines w1 f1 t where
      rd': "readFileSync h (fs w) (path_resolve h i) = Inr c'"
      and pa: "JSON_parse h c' = Inr d"
      and ex: "extractTranscriptText d (afterReadingLog h i w) = (Inr lines, w1)"
      and jo: "Array_join (Number_toString h) ''\<newline>'' lines = Inr t"
      and wr: "writeFileSync h f1 (path_resolve h out) t = (None, fs w')"
      by blast
    from rd rd' have "c' = c"
      by simp
    moreover from ex have "lines = linesOf d"
      by (simp add: extractTranscriptText_run linesOf_def split: if_splits)
    ultimately have "t0 = t"
      using pa jo by (simp add: t0_def)
    with wr show ?thesis
      by blast
  qed
  then show ?thesis
    by blast
qed

lemma simple_run_hello_again:
  \<open>processTranscript simple_host ''input.json'' ''out/t.txt''
     \<lparr>fs = \<lparr>files = [(''/work/out/t.txt'', ''Hello\<newline>world''),
                      (''/work/input.json'', helloText),
                      (''/work/bad.json'', ''{not valid json''),
                      (''/work/empty.json'', ''{}'')],
             dirs = [''/work/out'', ''/work''],
             readonly = [''/locked'', ''/work/locked.txt'']\<rparr>,
      console = cs\<rparr> =
     (Inr True,
      \<lparr>fs = \<lparr>files = [(''/work/out/t.txt'', ''Hello\<newline>world''),
                       (''/work/out/t.txt'', ''Hello\<newline>world''),
                       (''/work/input.json'', helloText),
                       (''/work/bad.json'', ''{not valid json''),
                       (''/work/empty.json'', ''{}'')],
              dirs = [''/work/out'', ''/work''],
              readonly = [''/locked'', ''/work/locked.txt'']\<rparr>,
       console = cs @
         [StdOut ''Reading file: /work/input.json'',
          StdOut ''Successfully extracted 2 lines'',
          StdOut ''Transcript saved to: /work/out/t.txt'']\<rparr>)\<close>
  by (simp add: processTranscript_run simple_host_simps extract_helloDocument join_hello
      string_of_nat_two)

theorem written_content_is_function_of_input_witness:
  "readFileSync simple_host (fs simple_world) (path_resolve simple_host ''input.json'')
     = Inr helloText \<and>
   fst (processTranscript simple_host ''input.json'' ''out/t.txt'' simple_world) = Inr True \<and>
   readFileSync simple_host
       (fs (snd (processTranscript simple_host ''input.json'' ''out/t.txt'' simple_world)))
       (path_resolve simple_host ''input.json'')
     = Inr helloText \<and>
   fst (processTranscript simple_host ''input.json'' ''out/t.txt''
         (snd (processTranscript simple_host ''input.json'' ''out/t.txt'' simple_world)))
     = Inr True \<and>
   readFileSync simple_host
       (fs (snd (processTranscript simple_host ''input.json'' ''out/t.txt'' simple_world)))
       ''/work/out/t.txt''
     = Inr ''Hello\<newline>world'' \<and>
   readFileSync simple_host
       (fs (snd (processTranscript simple_host ''input.json'' ''out/t.txt''
         (snd (processTranscript simple_host ''input.json'' ''out/t.txt'' simple_world)))))
       ''/work/out/t.txt''
     = Inr ''Hello\<newline>world'' \<and>
   (\<exists>t. (\<exists>f. writeFileSync simple_host f (path_resolve simple_host ''out/t.txt'') t =
            (None, fs (snd (processTranscript simple_host ''input.json'' ''out/t.txt''
               simple_world)))) \<and>
        (\<exists>f. writeFileSync simple_host f (path_resolve simple_host ''out/t.txt'') t =
            (None, fs (snd (processTranscript simple_host ''input.json'' ''out/t.txt''
               (snd (processTranscript simple_host ''input.json'' ''out/t.txt''
                  simple_world)))))))"
proof -
  let ?run1 = "processTranscript simple_host ''input.json'' ''out/t.txt'' simple_world"
  let ?run2 = "processTranscript simple_host ''input.json'' ''out/t.txt'' (snd ?run1)"
  have r1: "fst ?run1 = Inr True"
    by (simp add: simple_run_hello)
  have r2: "fst ?run2 = Inr True"
    by (simp add: simple_run_hello simple_run_hello_again)
  have c1: "readFileSync simple_host (fs simple_world) (path_resolve simple_host ''input.json'')
     = Inr helloText"
    by (simp add: simple_host_simps)
  have c2: "readFileSync simple_host (fs (snd ?run1)) (path_resolve simple_host ''input.json'')
     = Inr helloText"
    by (simp add: simple_run_hello) (simp add: simple_host_simps)
  have o1: "readFileSync simple_host (fs (snd ?run1)) ''/work/out/t.txt''
     = Inr ''Hello\<newline>world''"
    by (simp add: simple_run_hello) (simp add: simple_host_simps)
  have o2: "readFileSync simple_host (fs (snd ?run2)) ''/work/out/t.txt''
     = Inr ''Hello\<newline>world''"
    by (simp add: simple_run_hello simple_run_hello_again) (simp add: simple_host_simps)
  from written_content_is_function_of_input
    [of simple_host "''input.json''" helloText "''out/t.txt''"]
  obtain t where t: "\<And>w w'.
      readFileSync simple_host (fs w) (path_resolve simple_host ''input.json'') = Inr helloText \<Longrightarrow>
      processTranscript simple_host ''input.json'' ''out/t.txt'' w = (Inr True, w') \<Longrightarrow>
      \<exists>f. writeFileSync simple_host f (path_resolve simple_host ''out/t.txt'') t = (None, fs w')"
    by blast
  have "?run1 = (Inr True, snd ?run1)"
    using r1 by (simp add: prod_eq_iff)
  from t [OF c1 this] have w1: "\<exists>f. writeFileSync simple_host f
      (path_resolve simple_host ''out/t.txt'') t = (None, fs (snd ?run1))" .
  have "?run2 = (Inr True, snd ?run2)"
    using r2 by (simp add: prod_eq_iff)
  from t [OF c2 this] have w2: "\<exists>f. writeFileSync simple_host f
      (path_resolve simple_host ''out/t.txt'') t = (None, fs (snd ?run2))" .
  from r1 r2 c1 c2 o1 o2 w1 w2 show ?thesis
    by blast
qed

end
